theory Spec2Isabelle
  imports Main "HOL-Library.Sublist"
begin

section \<open>Python strings\<close>

text \<open>
  A Python \<open>str\<close> is a sequence of Unicode code points. The bot's texts are Cyrillic, so a
  string is modelled as the list of its code points: \<open>[1076, 1074, 1072]\<close> is the word
  U+0434 U+0432 U+0430 ("dva", two). Dictionary keys, which are ASCII identifiers in the
  source, are kept as HOL strings.
\<close>

type_synonym ustr = "nat list"

text \<open>
  \<open>needle in haystack\<close> on Python strings: the needle occurs as a contiguous block.
\<close>

fun str_in :: "ustr \<Rightarrow> ustr \<Rightarrow> bool" where
  "str_in needle [] = (needle = [])"
| "str_in needle (c # cs) = (prefix needle (c # cs) \<or> str_in needle cs)"

text \<open>
  \<open>str.lower()\<close>, code point by code point. The table covers Basic Latin \<open>A-Z\<close>, the
  Cyrillic capitals U+0400..U+042F and U+0130 (whose lower case is the two code points
  U+0069 U+0307); every other code point is left as it is. On every code point of Unicode
  this table and \<open>str.lower()\<close> agree wherever either of them yields a character that
  occurs in one of the keywords below, so each keyword test has the same outcome.
\<close>

definition lower_cp :: "nat \<Rightarrow> ustr" where
  "lower_cp c =
     (if 65 \<le> c \<and> c \<le> 90 then [c + 32]
      else if 1040 \<le> c \<and> c \<le> 1071 then [c + 32]
      else if 1024 \<le> c \<and> c \<le> 1039 then [c + 80]
      else if c = 304 then [105, 775]
      else [c])"

definition str_lower :: "ustr \<Rightarrow> ustr" where
  "str_lower s = concat (map lower_cp s)"

text \<open>\<open>sep.join(parts)\<close>.\<close>

fun str_join :: "ustr \<Rightarrow> ustr list \<Rightarrow> ustr" where
  "str_join sep [] = []"
| "str_join sep [p] = p"
| "str_join sep (p # q # ps) = p @ sep @ str_join sep (q # ps)"

section \<open>Regular expressions of the phone patterns\<close>

text \<open>
  The three phone patterns use only literal characters, the classes \<open>\d\<close> and \<open>[\s-]\<close>,
  exact repetition and the greedy \<open>?\<close>. A pattern is a list of atoms; \<open>\d{3}\<close> is three
  \<open>One Digit\<close> atoms.

  For a \<open>str\<close> pattern \<open>\d\<close> is the Unicode category Nd and \<open>\s\<close> is Unicode white
  space; the tables are those of Unicode 14.
\<close>

definition nd_decades :: "nat list" where
  "nd_decades = [48, 1632, 1776, 1984, 2406, 2534, 2662, 2790, 2918, 3046, 3174, 3302,
     3430, 3558, 3664, 3792, 3872, 4160, 4240, 6112, 6160, 6470, 6608, 6784, 6800, 6992,
     7088, 7232, 7248, 42528, 43216, 43264, 43472, 43504, 43600, 44016, 65296, 66720,
     68912, 69734, 69872, 69942, 70096, 70384, 70736, 70864, 71248, 71360, 71472, 71904,
     72016, 72784, 73040, 73120, 92768, 92864, 93008, 123200, 123632, 125264, 130032]"

definition is_decimal :: "nat \<Rightarrow> bool" where
  "is_decimal c \<longleftrightarrow>
     list_ex (\<lambda>lo. lo \<le> c \<and> c \<le> lo + 9) nd_decades \<or> (120782 \<le> c \<and> c \<le> 120831)"

definition is_space :: "nat \<Rightarrow> bool" where
  "is_space c \<longleftrightarrow>
     (9 \<le> c \<and> c \<le> 13) \<or> (28 \<le> c \<and> c \<le> 32) \<or> c = 133 \<or> c = 160 \<or> c = 5760 \<or>
     (8192 \<le> c \<and> c \<le> 8202) \<or> c = 8232 \<or> c = 8233 \<or> c = 8239 \<or> c = 8287 \<or> c = 12288"

datatype char_class = Lit nat | Digit | Space_or_hyphen

fun class_matches :: "char_class \<Rightarrow> nat \<Rightarrow> bool" where
  "class_matches (Lit l) c = (c = l)"
| "class_matches Digit c = is_decimal c"
| "class_matches Space_or_hyphen c = (is_space c \<or> c = 45)"

datatype atom = One char_class | Opt char_class

text \<open>
  Matching a pattern at the start of a string, with the backtracking order of \<open>re\<close>: a
  greedy \<open>?\<close> first consumes a character and, when the rest of the pattern then fails,
  is retried consuming none. The result is the length of the match.
\<close>

fun match_here :: "atom list \<Rightarrow> ustr \<Rightarrow> nat option" where
  "match_here [] s = Some 0"
| "match_here (One k # as) [] = None"
| "match_here (One k # as) (c # cs) =
     (if class_matches k c then map_option Suc (match_here as cs) else None)"
| "match_here (Opt k # as) [] = match_here as []"
| "match_here (Opt k # as) (c # cs) =
     (if class_matches k c
      then (case match_here as cs of
              Some n \<Rightarrow> Some (Suc n)
            | None \<Rightarrow> match_here as (c # cs))
      else match_here as (c # cs))"

text \<open>\<open>re.search(pattern, s)\<close>: the leftmost match; the result is \<open>match.group()\<close>.\<close>

fun re_search :: "atom list \<Rightarrow> ustr \<Rightarrow> ustr option" where
  "re_search p [] = map_option (\<lambda>n. []) (match_here p [])"
| "re_search p (c # cs) =
     (case match_here p (c # cs) of
        Some n \<Rightarrow> Some (take n (c # cs))
      | None \<Rightarrow> re_search p cs)"

text \<open>
  The patterns, in the order of the source:
  \<^verbatim>\<open>\+7[\s-]?\d{3}[\s-]?\d{3}[\s-]?\d{2}[\s-]?\d{2}\<close>,
  \<^verbatim>\<open>8[\s-]?\d{3}[\s-]?\d{3}[\s-]?\d{2}[\s-]?\d{2}\<close> and
  \<^verbatim>\<open>\d{11}\<close>. Code point 43 is \<open>+\<close>, 55 is \<open>7\<close>, 56 is \<open>8\<close>, 45 is the hyphen.
\<close>

definition digits :: "nat \<Rightarrow> atom list" where
  "digits n = replicate n (One Digit)"

definition phone_tail :: "atom list" where
  "phone_tail = Opt Space_or_hyphen # digits 3 @ Opt Space_or_hyphen # digits 3 @
                Opt Space_or_hyphen # digits 2 @ Opt Space_or_hyphen # digits 2"

definition phone_patterns :: "atom list list" where
  "phone_patterns =
     [One (Lit 43) # One (Lit 55) # phone_tail,
      One (Lit 56) # phone_tail,
      digits 11]"

text \<open>The loop over the patterns: the first pattern that matches decides, then \<open>break\<close>.\<close>

fun first_match :: "atom list list \<Rightarrow> ustr \<Rightarrow> ustr option" where
  "first_match [] s = None"
| "first_match (p # ps) s =
     (case re_search p s of Some m \<Rightarrow> Some m | None \<Rightarrow> first_match ps s)"

section \<open>The report and the field extractor\<close>

text \<open>
  \<open>context.user_data["application"]\<close>: the dictionary created by \<open>start\<close>, with exactly
  these keys. A field is \<open>None\<close> until it is filled.
\<close>

record application =
  timestamp :: ustr
  location :: "ustr option"
  participants :: "ustr option"
  damage :: "ustr option"
  injuries :: "ustr option"
  photos_count :: int
  contact :: "ustr option"

text \<open>Python truth of a field value: \<open>None\<close> and the empty string are false.\<close>

fun truthy :: "ustr option \<Rightarrow> bool" where
  "truthy None = False"
| "truthy (Some s) = (s \<noteq> [])"

definition address_keywords :: "ustr list" where
  "address_keywords = [
    [1091, 1083, 1080, 1094, 1072],
    [1091, 1083, 46],
    [1087, 1088, 1086, 1089, 1087, 1077, 1082, 1090],
    [1087, 1088, 46],
    [1087, 1077, 1088, 1077, 1091, 1083, 1086, 1082],
    [1087, 1077, 1088, 46],
    [1087, 1083, 1086, 1097, 1072, 1076, 1100],
    [1096, 1086, 1089, 1089, 1077],
    [1076, 1086, 1084],
    [1076, 46]]"

definition damage_keywords :: "ustr list" where
  "damage_keywords = [
    [1073, 1072, 1084, 1087, 1077, 1088],
    [1092, 1072, 1088, 1072],
    [1082, 1088, 1099, 1083, 1086],
    [1076, 1074, 1077, 1088, 1100],
    [1082, 1072, 1087, 1086, 1090],
    [1087, 1086, 1074, 1088, 1077, 1078, 1076, 1077, 1085, 1080, 1077],
    [1094, 1072, 1088, 1072, 1087, 1080, 1085, 1072],
    [1074, 1084, 1103, 1090, 1080, 1085, 1072],
    [1088, 1072, 1079, 1073, 1080, 1090]]"

text \<open>The words "dva" and "tri", and the two literal values of \<open>participants\<close>.\<close>

definition word_two :: ustr where
  "word_two = [1076, 1074, 1072]"

definition word_three :: ustr where
  "word_three = [1090, 1088, 1080]"

definition two_vehicles :: ustr where
  "two_vehicles = [50, 32, 1072, 1074, 1090, 1086, 1084, 1086, 1073, 1080, 1083, 1103]"

definition three_vehicles :: ustr where
  "three_vehicles = [51, 32, 1072, 1074, 1090, 1086, 1084, 1086, 1073, 1080, 1083, 1103]"

text \<open>
  The phrases "net postradavshih", "nikto ne postradal", "postradal", "ranen", and the
  two literal values of \<open>injuries\<close> ("Net postradavshih", "Est' postradavshie").
\<close>

definition phrase_no_injured :: ustr where
  "phrase_no_injured = [1085, 1077, 1090, 32, 1087, 1086, 1089, 1090, 1088, 1072, 1076,
     1072, 1074, 1096, 1080, 1093]"

definition phrase_nobody_injured :: ustr where
  "phrase_nobody_injured = [1085, 1080, 1082, 1090, 1086, 32, 1085, 1077, 32, 1087, 1086,
     1089, 1090, 1088, 1072, 1076, 1072, 1083]"

definition word_injured :: ustr where
  "word_injured = [1087, 1086, 1089, 1090, 1088, 1072, 1076, 1072, 1083]"

definition word_wounded :: ustr where
  "word_wounded = [1088, 1072, 1085, 1077, 1085]"

definition no_injuries :: ustr where
  "no_injuries = [1053, 1077, 1090, 32, 1087, 1086, 1089, 1090, 1088, 1072, 1076, 1072,
     1074, 1096, 1080, 1093]"

definition has_injuries :: ustr where
  "has_injuries = [1045, 1089, 1090, 1100, 32, 1087, 1086, 1089, 1090, 1088, 1072, 1076,
     1072, 1074, 1096, 1080, 1077]"

text \<open>
  \<open>extract_info_from_message\<close> mutates the report and returns the dictionary \<open>updated\<close>,
  whose keys are listed here in insertion order. Each of its five blocks is one function
  on the pair of the report and the keys collected so far.
\<close>

type_synonym extraction = "application \<times> string list"

definition extract_location :: "ustr \<Rightarrow> ustr \<Rightarrow> extraction \<Rightarrow> extraction" where
  "extract_location message message_lower = (\<lambda>(app, updated).
     if \<not> truthy (location app) then
       if list_ex (\<lambda>word. str_in word message_lower) address_keywords
       then (app\<lparr>location := Some message\<rparr>, updated @ [''location''])
       else (app, updated)
     else (app, updated))"

definition extract_participants :: "ustr \<Rightarrow> ustr \<Rightarrow> extraction \<Rightarrow> extraction" where
  "extract_participants message message_lower = (\<lambda>(app, updated).
     if \<not> truthy (participants app) then
       if str_in word_two message_lower \<or> str_in [50] message
       then (app\<lparr>participants := Some two_vehicles\<rparr>, updated @ [''participants''])
       else if str_in word_three message_lower \<or> str_in [51] message
       then (app\<lparr>participants := Some three_vehicles\<rparr>, updated @ [''participants''])
       else (app, updated)
     else (app, updated))"

definition extract_damage :: "ustr \<Rightarrow> ustr \<Rightarrow> extraction \<Rightarrow> extraction" where
  "extract_damage message message_lower = (\<lambda>(app, updated).
     if \<not> truthy (damage app) then
       if list_ex (\<lambda>word. str_in word message_lower) damage_keywords
       then (app\<lparr>damage := Some message\<rparr>, updated @ [''damage''])
       else (app, updated)
     else (app, updated))"

definition extract_injuries :: "ustr \<Rightarrow> ustr \<Rightarrow> extraction \<Rightarrow> extraction" where
  "extract_injuries message message_lower = (\<lambda>(app, updated).
     if \<not> truthy (injuries app) then
       if str_in phrase_no_injured message_lower \<or> str_in phrase_nobody_injured message_lower
       then (app\<lparr>injuries := Some no_injuries\<rparr>, updated @ [''injuries''])
       else if str_in word_injured message_lower \<or> str_in word_wounded message_lower
       then (app\<lparr>injuries := Some has_injuries\<rparr>, updated @ [''injuries''])
       else (app, updated)
     else (app, updated))"

definition extract_contact :: "ustr \<Rightarrow> extraction \<Rightarrow> extraction" where
  "extract_contact message = (\<lambda>(app, updated).
     if \<not> truthy (contact app) then
       (case first_match phone_patterns message of
          Some m \<Rightarrow> (app\<lparr>contact := Some m\<rparr>, updated @ [''contact''])
        | None \<Rightarrow> (app, updated))
     else (app, updated))"

definition extract_info_from_message :: "ustr \<Rightarrow> application \<Rightarrow> extraction" where
  "extract_info_from_message message application =
     (let message_lower = str_lower message in
      extract_contact message
        (extract_injuries message message_lower
          (extract_damage message message_lower
            (extract_participants message message_lower
              (extract_location message message_lower (application, []))))))"

text \<open>
  The report created by \<open>start\<close>: every field unset. \<open>ts\<close> is the ISO timestamp.
\<close>

definition fresh_application :: "ustr \<Rightarrow> application" where
  "fresh_application ts = \<lparr>timestamp = ts, location = None, participants = None,
     damage = None, injuries = None, photos_count = 0, contact = None\<rparr>"

text \<open>
  The message of the specification's example: "avariya na ulitse Lenina, dva avtomobilya,
  nikto ne postradal, +79001234567". The street is in the prepositional case, "ulitse"
  (U+0443 U+043B U+0438 U+0446 U+0435), which ends in U+0435 and not in the U+0430 of the
  keyword "ulitsa".
\<close>

definition example_message :: ustr where
  "example_message = [1072, 1074, 1072, 1088, 1080, 1103, 32, 1085, 1072, 32, 1091, 1083,
     1080, 1094, 1077, 32, 1051, 1077, 1085, 1080, 1085, 1072, 44, 32, 1076, 1074, 1072, 32,
     1072, 1074, 1090, 1086, 1084, 1086, 1073, 1080, 1083, 1103, 44, 32, 1085, 1080, 1082,
     1090, 1086, 32, 1085, 1077, 32, 1087, 1086, 1089, 1090, 1088, 1072, 1076, 1072, 1083,
     44, 32, 43, 55, 57, 48, 48, 49, 50, 51, 52, 53, 54, 55]"

text \<open>
  A message that fires all five rules: "ul. Mira 2, bamper, ranen, 89001234567".
\<close>

definition full_message :: ustr where
  "full_message = [1091, 1083, 46, 32, 1052, 1080, 1088, 1072, 32, 50, 44, 32, 1073, 1072,
     1084, 1087, 1077, 1088, 44, 32, 1088, 1072, 1085, 1077, 1085, 44, 32, 56, 57, 48, 48,
     49, 50, 51, 52, 53, 54, 55]"

section \<open>Conversation states, session data and replies\<close>

text \<open>
  The states of the \<open>ConversationHandler\<close>, in the order of the source's \<open>range(12)\<close>;
  \<open>END\<close> is \<open>ConversationHandler.END\<close>. \<open>PHOTOS\<close> is declared and never used.
\<close>

datatype state =
  CHOOSING_MODE | LOCATION | PARTICIPANTS | DAMAGE | INJURIES | PHOTOS | CONTACT |
  AI_CHAT | CONFIRM | ADMIN_MENU | ADMIN_ADD | ADMIN_REMOVE | END

text \<open>
  A turn of the conversation history, \<open>{"role": ..., "content": ...}\<close>. The content of
  the system message is the prompt template of \<open>get_ai_response\<close> filled with the five
  fields of the report; it is kept symbolic.
\<close>

datatype content = Plain ustr | System_prompt application

record chat_message =
  role :: string
  content :: content

text \<open>\<open>context.user_data\<close>, with its two keys.\<close>

record user_data =
  user_application :: application
  user_ai_history :: "chat_message list"

text \<open>
  What a handler sends with \<open>reply_text\<close>. Texts that a claim reads are spelled out as
  \<open>Text\<close>; the fixed prompts and templates are one constructor each:
  \<^item> \<open>Summary app\<close>: the summary template of the report followed by the request to check
    it, with the confirm and cancel buttons (\<open>get_contact\<close>, \<open>finish_ai_application\<close>);
  \<^item> \<open>Ask_participants\<close>, \<open>Ask_damage\<close>, \<open>Ask_injuries\<close>, \<open>Ask_contact\<close>: the prompts
    of steps 2 to 5 of the guided form;
  \<^item> \<open>Submitted\<close>, \<open>Cancelled\<close>: the two acknowledgments of \<open>confirm_application\<close>;
  \<^item> \<open>Admin_not_found\<close>, \<open>Last_admin_guard\<close>, \<open>Admin_removed\<close>, \<open>Save_failed\<close>,
    \<open>Bad_id_format\<close>: the replies of \<open>admin_remove_handler\<close>;
  \<^item> \<open>No_access\<close>, \<open>Admin_menu_text admins\<close>: the replies of \<open>admin_menu\<close>.
\<close>

datatype reply =
  Text ustr
| Summary application
| Ask_participants | Ask_damage | Ask_injuries | Ask_contact
| Submitted | Cancelled
| Admin_not_found int | Last_admin_guard | Admin_removed int | Save_failed | Bad_id_format
| No_access | Admin_menu_text "int list"

section \<open>The assisted interview\<close>

text \<open>\<open>xs[-n:]\<close>: the last \<open>n\<close> elements, all of them when there are fewer.\<close>

definition py_last :: "nat \<Rightarrow> 'a list \<Rightarrow> 'a list" where
  "py_last n xs = drop (length xs - n) xs"

text \<open>
  The two fixed apologies of \<open>get_ai_response\<close>: "Izvinite, AI-pomoshchnik vremenno
  nedostupen. ..." when there is no client, and "Izvinite, proizoshla oshibka pri obrabotke
  soobshcheniya. ..." when the call raises.
\<close>

definition ai_unavailable :: ustr where
  "ai_unavailable = [1048, 1079, 1074, 1080, 1085, 1080, 1090, 1077, 44, 32, 65, 73, 45,
     1087, 1086, 1084, 1086, 1097, 1085, 1080, 1082, 32, 1074, 1088, 1077, 1084, 1077, 1085,
     1085, 1086, 32, 1085, 1077, 1076, 1086, 1089, 1090, 1091, 1087, 1077, 1085, 46, 32,
     1055, 1086, 1078, 1072, 1083, 1091, 1081, 1089, 1090, 1072, 44, 32, 1080, 1089, 1087,
     1086, 1083, 1100, 1079, 1091, 1081, 1090, 1077, 32, 1088, 1077, 1078, 1080, 1084, 32,
     1089, 32, 1082, 1085, 1086, 1087, 1082, 1072, 1084, 1080, 32, 1080, 1083, 1080, 32,
     1087, 1086, 1087, 1088, 1086, 1073, 1091, 1081, 1090, 1077, 32, 1087, 1086, 1079, 1078,
     1077, 46]"

definition ai_error :: ustr where
  "ai_error = [1048, 1079, 1074, 1080, 1085, 1080, 1090, 1077, 44, 32, 1087, 1088, 1086,
     1080, 1079, 1086, 1096, 1083, 1072, 32, 1086, 1096, 1080, 1073, 1082, 1072, 32, 1087,
     1088, 1080, 32, 1086, 1073, 1088, 1072, 1073, 1086, 1090, 1082, 1077, 32, 1089, 1086,
     1086, 1073, 1097, 1077, 1085, 1080, 1103, 46, 32, 1055, 1086, 1087, 1088, 1086, 1073,
     1091, 1081, 1090, 1077, 32, 1077, 1097, 1105, 32, 1088, 1072, 1079, 32, 1080, 1083,
     1080, 32, 1080, 1089, 1087, 1086, 1083, 1100, 1079, 1091, 1081, 1090, 1077, 32, 1088,
     1077, 1078, 1080, 1084, 32, 1089, 32, 1082, 1085, 1086, 1087, 1082, 1072, 1084, 1080,
     32, 40, 47, 115, 116, 97, 114, 116, 41, 46]"

text \<open>
  The text-generation backend, \<open>openai_client.chat.completions.create\<close> followed by
  reading the reply: it is given the request and returns the reply, or \<open>None\<close> when
  anything in the \<open>try\<close> block raises. The global \<open>openai_client\<close> is \<open>None\<close> when the
  client could not be built.
\<close>

type_synonym backend = "chat_message list \<Rightarrow> ustr option"

text \<open>The list \<open>messages\<close> that \<open>get_ai_response\<close> builds.\<close>

definition request_messages :: "ustr \<Rightarrow> chat_message list \<Rightarrow> application \<Rightarrow> chat_message list" where
  "request_messages user_message conversation_history application_data =
     [\<lparr>role = ''system'', content = System_prompt application_data\<rparr>]
     @ py_last 10 conversation_history
     @ [\<lparr>role = ''user'', content = Plain user_message\<rparr>]"

definition get_ai_response ::
  "backend option \<Rightarrow> ustr \<Rightarrow> chat_message list \<Rightarrow> application \<Rightarrow> ustr" where
  "get_ai_response openai_client user_message conversation_history application_data =
     (case openai_client of
        None \<Rightarrow> ai_unavailable
      | Some create \<Rightarrow>
          (case create (request_messages user_message conversation_history application_data) of
             Some ai_message \<Rightarrow> ai_message
           | None \<Rightarrow> ai_error))"

text \<open>
  The words that end the interview: "/finish", "zavershit'", "zakonchit'", "gotovo".
\<close>

definition finish_words :: "ustr list" where
  "finish_words = [
    [47, 102, 105, 110, 105, 115, 104],
    [1079, 1072, 1074, 1077, 1088, 1096, 1080, 1090, 1100],
    [1079, 1072, 1082, 1086, 1085, 1095, 1080, 1090, 1100],
    [1075, 1086, 1090, 1086, 1074, 1086]]"

text \<open>
  The names of the two required fields in the reply of \<open>finish_ai_application\<close>, "mesto
  DTP" (place of the accident) and "telefon" (phone), and the text before them,
  U+26A0 U+FE0F "Pozhaluysta, ukazhite: ".
\<close>

definition label_location :: ustr where
  "label_location = [1084, 1077, 1089, 1090, 1086, 32, 1044, 1058, 1055]"

definition label_phone :: ustr where
  "label_phone = [1090, 1077, 1083, 1077, 1092, 1086, 1085]"

definition please_specify :: ustr where
  "please_specify = [9888, 65039, 32, 1055, 1086, 1078, 1072, 1083, 1091, 1081, 1089, 1090,
     1072, 44, 32, 1091, 1082, 1072, 1078, 1080, 1090, 1077, 58, 32]"

text \<open>
  In \<open>ai_chat\<close>: U+2705 "Sohraneno: " before the keys just filled, and the hint
  "Kogda zakonchite, napishite /finish" after the reply.
\<close>

definition saved_prefix :: ustr where
  "saved_prefix = [9989, 32, 1057, 1086, 1093, 1088, 1072, 1085, 1077, 1085, 1086, 58, 32]"

definition finish_hint :: ustr where
  "finish_hint = [10, 10, 128161, 32, 1050, 1086, 1075, 1076, 1072, 32, 1079, 1072, 1082,
     1086, 1085, 1095, 1080, 1090, 1077, 44, 32, 1085, 1072, 1087, 1080, 1096, 1080, 1090,
     1077, 32, 47, 102, 105, 110, 105, 115, 104]"

text \<open>A handler returns the next state, the replies it sent and the session data.\<close>

type_synonym outcome = "state \<times> reply list \<times> user_data"

definition finish_ai_application :: "user_data \<Rightarrow> outcome" where
  "finish_ai_application ud =
     (let app = user_application ud;
          missing = (if \<not> truthy (location app) then [label_location] else [])
                  @ (if \<not> truthy (contact app) then [label_phone] else [])
      in if missing \<noteq> []
         then (AI_CHAT, [Text (please_specify @ str_join [44, 32] missing)], ud)
         else (CONFIRM, [Summary app], ud))"

definition ai_chat :: "backend option \<Rightarrow> ustr \<Rightarrow> user_data \<Rightarrow> outcome" where
  "ai_chat openai_client user_message ud =
     (if str_lower user_message \<in> set finish_words then finish_ai_application ud
      else
        (let (app, updated_fields) =
               extract_info_from_message user_message (user_application ud);
             history = user_ai_history ud @ [\<lparr>role = ''user'', content = Plain user_message\<rparr>];
             ai_response = get_ai_response openai_client user_message history app;
             history = history @ [\<lparr>role = ''assistant'', content = Plain ai_response\<rparr>];
             ai_response =
               (if updated_fields \<noteq> []
                then saved_prefix @ str_join [44, 32] (map (map of_char) updated_fields)
                     @ [10, 10] @ ai_response
                else ai_response)
         in (AI_CHAT, [Text (ai_response @ finish_hint)],
             \<lparr>user_application = app, user_ai_history = history\<rparr>)))"

section \<open>The guided form\<close>

definition get_location :: "ustr \<Rightarrow> user_data \<Rightarrow> outcome" where
  "get_location text ud =
     (PARTICIPANTS, [Ask_participants],
      ud\<lparr>user_application := (user_application ud)\<lparr>location := Some text\<rparr>\<rparr>)"

definition get_participants :: "ustr \<Rightarrow> user_data \<Rightarrow> outcome" where
  "get_participants text ud =
     (DAMAGE, [Ask_damage],
      ud\<lparr>user_application := (user_application ud)\<lparr>participants := Some text\<rparr>\<rparr>)"

definition get_damage :: "ustr \<Rightarrow> user_data \<Rightarrow> outcome" where
  "get_damage text ud =
     (INJURIES, [Ask_injuries],
      ud\<lparr>user_application := (user_application ud)\<lparr>damage := Some text\<rparr>\<rparr>)"

definition get_injuries :: "ustr \<Rightarrow> user_data \<Rightarrow> outcome" where
  "get_injuries text ud =
     (CONTACT, [Ask_contact],
      ud\<lparr>user_application := (user_application ud)\<lparr>injuries := Some text\<rparr>\<rparr>)"

definition get_contact :: "ustr \<Rightarrow> user_data \<Rightarrow> outcome" where
  "get_contact text ud =
     (let ud' = ud\<lparr>user_application := (user_application ud)\<lparr>contact := Some text\<rparr>\<rparr>
      in (CONFIRM, [Summary (user_application ud')], ud'))"

text \<open>
  The entries of the \<open>states\<close> table of the \<open>ConversationHandler\<close> for the five steps of
  the form: the handler that a text message reaches in each state.
\<close>

fun guided_handler :: "state \<Rightarrow> (ustr \<Rightarrow> user_data \<Rightarrow> outcome) option" where
  "guided_handler LOCATION = Some get_location"
| "guided_handler PARTICIPANTS = Some get_participants"
| "guided_handler DAMAGE = Some get_damage"
| "guided_handler INJURIES = Some get_injuries"
| "guided_handler CONTACT = Some get_contact"
| "guided_handler _ = None"

text \<open>
  The form fed with a sequence of text messages: each goes to the handler of the current
  state, whose result is the next state. The run lists the states entered and stops when
  the conversation has left the form.
\<close>

fun run_guided :: "state \<Rightarrow> user_data \<Rightarrow> ustr list \<Rightarrow> state list \<times> user_data" where
  "run_guided st ud [] = ([], ud)"
| "run_guided st ud (text # texts) =
     (case guided_handler st of
        None \<Rightarrow> ([], ud)
      | Some handler \<Rightarrow>
          (case handler text ud of
             (st', replies, ud') \<Rightarrow>
               (case run_guided st' ud' texts of
                  (visited, ud'') \<Rightarrow> (st' # visited, ud''))))"

section \<open>The administrator roster\<close>

text \<open>
  The roster lives in the file \<open>admins.txt\<close>, one identity per line. \<open>admins_file\<close> is
  its content as \<open>load_admins\<close> reads it, or \<open>None\<close> when the file is missing or cannot
  be read and parsed (both \<open>except\<close> branches return the built-in list).

  \<open>save_admins\<close> opens the file with mode \<open>"w"\<close>, which empties it, and then writes the
  entries. \<open>next_write\<close> is what happens to the save made next:
  \<^item> \<open>Write_succeeds\<close>: the file holds the new roster and the result is \<open>True\<close>;
  \<^item> \<open>Open_fails\<close>: \<open>open\<close> raises, the file is as it was and the result is \<open>False\<close>;
  \<^item> \<open>Write_fails left\<close>: the file has been emptied by \<open>open\<close> and writing or closing
    raises; the result is \<open>False\<close> and the file holds the part of the text that reached
    it, \<open>left\<close> being that content as \<open>load_admins\<close> will read it (\<open>Some []\<close> when
    nothing was written).
\<close>

datatype write_outcome = Write_succeeds | Open_fails | Write_fails "int list option"

record storage =
  admins_file :: "int list option"
  next_write :: write_outcome

text \<open>Every entry of the built-in list is commented out in the source.\<close>

definition ADMIN_IDS :: "int list" where
  "ADMIN_IDS = []"

definition load_admins :: "storage \<Rightarrow> int list" where
  "load_admins st = (case admins_file st of Some admins \<Rightarrow> admins | None \<Rightarrow> ADMIN_IDS)"

definition save_admins :: "int list \<Rightarrow> storage \<Rightarrow> bool \<times> storage" where
  "save_admins admins st =
     (case next_write st of
        Write_succeeds \<Rightarrow> (True, st\<lparr>admins_file := Some admins\<rparr>)
      | Open_fails \<Rightarrow> (False, st)
      | Write_fails left \<Rightarrow> (False, st\<lparr>admins_file := left\<rparr>))"

definition is_admin :: "int \<Rightarrow> storage \<Rightarrow> bool" where
  "is_admin user_id st \<longleftrightarrow> user_id \<in> set (load_admins st)"

definition admin_menu :: "int \<Rightarrow> storage \<Rightarrow> state \<times> reply list" where
  "admin_menu user_id st =
     (if \<not> is_admin user_id st then (END, [No_access])
      else (ADMIN_MENU, [Admin_menu_text (load_admins st)]))"

text \<open>
  \<open>admin_remove_handler\<close>. \<open>parsed\<close> is the result of \<open>int(update.message.text.strip())\<close>,
  \<open>None\<close> when it raises \<open>ValueError\<close>; \<open>user_id\<close> is \<open>update.effective_user.id\<close>.
  \<open>admins.remove\<close> deletes the first occurrence.
\<close>

definition admin_remove_handler ::
  "int option \<Rightarrow> int \<Rightarrow> storage \<Rightarrow> state \<times> reply list \<times> storage" where
  "admin_remove_handler parsed user_id st =
     (case parsed of
        None \<Rightarrow> (ADMIN_REMOVE, [Bad_id_format], st)
      | Some remove_admin_id \<Rightarrow>
          (let admins = load_admins st;
               (replies, st') =
                 (if remove_admin_id \<notin> set admins
                  then ([Admin_not_found remove_admin_id], st)
                  else if remove_admin_id = user_id \<and> length admins = 1
                  then ([Last_admin_guard], st)
                  else
                    (let (saved, st') = save_admins (remove1 remove_admin_id admins) st
                     in if saved then ([Admin_removed remove_admin_id], st')
                        else ([Save_failed], st')));
               (next_state, menu) = admin_menu user_id st'
           in (next_state, replies @ menu, st')))"

section \<open>The submission broadcaster\<close>

text \<open>
  The chat transport is a parameter: \<open>send net chat_id message\<close> is
  \<open>context.bot.send_message\<close>, which returns (\<open>True\<close>) or raises (\<open>False\<close>) and leaves
  the transport in a new state. The lines written to the log are the trace of the
  broadcast:
  \<^item> \<open>Warn_no_admins\<close>: the warning that there is no administrator;
  \<^item> \<open>Info_sent admin_id\<close>, \<open>Error_send admin_id\<close>: the delivery to \<open>admin_id\<close>
    succeeded, failed;
  \<^item> \<open>Info_sent_count k n\<close>: the report was sent to \<open>k\<close> of \<open>n\<close> administrators.
\<close>

datatype log_event =
  Warn_no_admins | Info_sent int | Error_send int | Info_sent_count nat nat

type_synonym ('n, 'm) transport = "'n \<Rightarrow> int \<Rightarrow> 'm \<Rightarrow> bool \<times> 'n"

text \<open>The loop over the recipients, with \<open>success_count\<close> and the log so far.\<close>

fun send_loop ::
  "('n, 'm) transport \<Rightarrow> 'm \<Rightarrow> int list \<Rightarrow> 'n \<Rightarrow> nat \<Rightarrow> log_event list
     \<Rightarrow> 'n \<times> nat \<times> log_event list" where
  "send_loop send message [] net success_count log = (net, success_count, log)"
| "send_loop send message (admin_id # admins) net success_count log =
     (case send net admin_id message of
        (True, net') \<Rightarrow>
          send_loop send message admins net' (success_count + 1) (log @ [Info_sent admin_id])
      | (False, net') \<Rightarrow>
          send_loop send message admins net' success_count (log @ [Error_send admin_id]))"

definition send_to_admins ::
  "('n, 'm) transport \<Rightarrow> storage \<Rightarrow> 'm \<Rightarrow> 'n \<Rightarrow> log_event list \<times> 'n" where
  "send_to_admins send st message net =
     (let admins = load_admins st in
      if admins = [] then ([Warn_no_admins], net)
      else
        (case send_loop send message admins net 0 [] of
           (net', success_count, log) \<Rightarrow>
             (log @ [Info_sent_count success_count (length admins)], net')))"

text \<open>
  \<open>confirm_application\<close>. The submitter is \<open>update.effective_user\<close>; the text sent to the
  administrators is \<open>format_application(app, user_info)\<close>, kept symbolic as \<open>Report\<close>.
  U+2705 is the check mark of the confirm button. The log returned is the log of the
  broadcast; the lines with which the handler then records the report are left out.
\<close>

record user_info =
  first_name :: ustr
  username :: "ustr option"
  user_id :: int

datatype report_text = Report application user_info

definition confirm_application ::
  "('n, report_text) transport \<Rightarrow> ustr \<Rightarrow> user_data \<Rightarrow> user_info \<Rightarrow> storage \<Rightarrow> 'n
     \<Rightarrow> state \<times> reply list \<times> log_event list \<times> 'n" where
  "confirm_application send choice ud user st net =
     (if str_in [9989] choice then
        (let formatted_application = Report (user_application ud) user;
             (log, net') = send_to_admins send st formatted_application net
         in (END, [Submitted], log, net'))
      else (END, [Cancelled], [], net))"

text \<open>
  A transport for the examples: its state is the list of chats that received a message,
  and delivery to the chats in \<open>unreachable\<close> raises.
\<close>

definition flaky_send :: "int list \<Rightarrow> (int list, 'm) transport" where
  "flaky_send unreachable delivered chat_id message =
     (if chat_id \<in> set unreachable then (False, delivered)
      else (True, delivered @ [chat_id]))"

text \<open>
  Reading the log of a broadcast: the recipients of the delivery attempts, in order, and
  those among them whose delivery succeeded.
\<close>

fun attempted :: "log_event list \<Rightarrow> int list" where
  "attempted [] = []"
| "attempted (Info_sent admin_id # log) = admin_id # attempted log"
| "attempted (Error_send admin_id # log) = admin_id # attempted log"
| "attempted (_ # log) = attempted log"

fun delivered :: "log_event list \<Rightarrow> int list" where
  "delivered [] = []"
| "delivered (Info_sent admin_id # log) = admin_id # delivered log"
| "delivered (_ # log) = delivered log"

section \<open>Facts about strings and patterns\<close>

lemma str_in_iff_sublist: "str_in needle hay \<longleftrightarrow> sublist needle hay"
proof (induction hay)
  case Nil
  show ?case by simp
next
  case (Cons c cs)
  then show ?case
    by (cases needle) (auto simp: sublist_Cons_right)
qed

lemma str_in_single: "str_in [c] s \<longleftrightarrow> c \<in> set s"
  by (induction s) auto

section \<open>What each block of the extractor does to the report\<close>

text \<open>
  Each block changes at most its own field; the value it stores depends on the message
  and on that field only.
\<close>

lemma fst_extract_location:
  "fst (extract_location m ml x) =
     (fst x)\<lparr>location :=
        (if \<not> truthy (location (fst x)) \<and> list_ex (\<lambda>word. str_in word ml) address_keywords
         then Some m else location (fst x))\<rparr>"
  by (cases x) (simp add: extract_location_def)

lemma fst_extract_participants:
  "fst (extract_participants m ml x) =
     (fst x)\<lparr>participants :=
        (if truthy (participants (fst x)) then participants (fst x)
         else if str_in word_two ml \<or> str_in [50] m then Some two_vehicles
         else if str_in word_three ml \<or> str_in [51] m then Some three_vehicles
         else participants (fst x))\<rparr>"
  by (cases x) (simp add: extract_participants_def)

lemma fst_extract_damage:
  "fst (extract_damage m ml x) =
     (fst x)\<lparr>damage :=
        (if \<not> truthy (damage (fst x)) \<and> list_ex (\<lambda>word. str_in word ml) damage_keywords
         then Some m else damage (fst x))\<rparr>"
  by (cases x) (simp add: extract_damage_def)

lemma fst_extract_injuries:
  "fst (extract_injuries m ml x) =
     (fst x)\<lparr>injuries :=
        (if truthy (injuries (fst x)) then injuries (fst x)
         else if str_in phrase_no_injured ml \<or> str_in phrase_nobody_injured ml
         then Some no_injuries
         else if str_in word_injured ml \<or> str_in word_wounded ml then Some has_injuries
         else injuries (fst x))\<rparr>"
  by (cases x) (simp add: extract_injuries_def)

lemma fst_extract_contact:
  "fst (extract_contact m x) =
     (fst x)\<lparr>contact :=
        (if truthy (contact (fst x)) then contact (fst x)
         else case first_match phone_patterns m of
                Some r \<Rightarrow> Some r
              | None \<Rightarrow> contact (fst x))\<rparr>"
  by (cases x) (simp add: extract_contact_def split: option.splits)

lemmas fst_extract_blocks =
  fst_extract_location fst_extract_participants fst_extract_damage
  fst_extract_injuries fst_extract_contact

text \<open>The keys collected by earlier blocks are kept by the later ones.\<close>

lemma snd_extract_damage_mono: "k \<in> set (snd x) \<Longrightarrow> k \<in> set (snd (extract_damage m ml x))"
  by (cases x) (simp add: extract_damage_def)

lemma snd_extract_injuries_mono:
  "k \<in> set (snd x) \<Longrightarrow> k \<in> set (snd (extract_injuries m ml x))"
  by (cases x) (simp add: extract_injuries_def)

lemma snd_extract_contact_mono: "k \<in> set (snd x) \<Longrightarrow> k \<in> set (snd (extract_contact m x))"
  by (cases x) (simp add: extract_contact_def split: option.splits)

lemma snd_extract_participants_two:
  "\<not> truthy (participants (fst x)) \<Longrightarrow> str_in [50] m \<Longrightarrow>
   ''participants'' \<in> set (snd (extract_participants m ml x))"
  by (cases x) (simp add: extract_participants_def)

section \<open>The participants rule\<close>

text \<open>
  Claim C9. The participants block tests the digit \<open>2\<close> (code point 50) on the raw message
  and tests the two-vehicles branch first. So for every report whose \<open>participants\<close> field
  is unset (\<open>None\<close> or empty) and every message that contains the character \<open>2\<close>
  anywhere, whatever else it contains, the extractor sets \<open>participants\<close> to the literal
  two-vehicles value and records the key.
\<close>

theorem participants_digit_two:
  assumes "50 \<in> set message" and "\<not> truthy (participants app)"
  shows "participants (fst (extract_info_from_message message app)) = Some two_vehicles
       \<and> ''participants'' \<in> set (snd (extract_info_from_message message app))"
proof
  show "participants (fst (extract_info_from_message message app)) = Some two_vehicles"
    using assms
    by (simp add: extract_info_from_message_def Let_def fst_extract_blocks str_in_single)
next
  let ?ml = "str_lower message"
  let ?x = "extract_location message ?ml (app, [])"
  have "\<not> truthy (participants (fst ?x))"
    using assms(2) by (simp add: fst_extract_location)
  then have "''participants'' \<in> set (snd (extract_participants message ?ml ?x))"
    using assms(1) by (intro snd_extract_participants_two) (simp_all add: str_in_single)
  then show "''participants'' \<in> set (snd (extract_info_from_message message app))"
    unfolding extract_info_from_message_def Let_def
    by (intro snd_extract_contact_mono snd_extract_injuries_mono snd_extract_damage_mono)
qed

text \<open>
  The message "tri, 32" (U+0442 U+0440 U+0438, comma, space, 3, 2) names three both as a
  word and as a digit, and still gives two vehicles.
\<close>

theorem participants_digit_two_witness:
  "50 \<in> set [1090, 1088, 1080, 44, 32, 51, 50]
   \<and> \<not> truthy (participants \<lparr>timestamp = [], location = None, participants = Some [],
        damage = None, injuries = None, photos_count = 0, contact = None\<rparr>)
   \<and> participants (fst (extract_info_from_message [1090, 1088, 1080, 44, 32, 51, 50]
        \<lparr>timestamp = [], location = None, participants = Some [],
         damage = None, injuries = None, photos_count = 0, contact = None\<rparr>))
       = Some two_vehicles"
  using participants_digit_two [of "[1090, 1088, 1080, 44, 32, 51, 50]"
      "\<lparr>timestamp = [], location = None, participants = Some [],
        damage = None, injuries = None, photos_count = 0, contact = None\<rparr>"]
  by simp

section \<open>The extractor never overwrites a filled field\<close>

text \<open>A match of a phone pattern is never empty, and a keyword is found only in a non-empty message.\<close>

lemma match_here_le: "match_here p s = Some n \<Longrightarrow> n \<le> length s"
  by (induction p s arbitrary: n rule: match_here.induct)
     (auto split: if_splits option.splits)

lemma match_here_One_pos: "match_here (One k # p) s = Some n \<Longrightarrow> 0 < n"
  by (cases s) (auto split: if_splits)

lemma re_search_One_nonempty: "re_search (One k # p) s = Some r \<Longrightarrow> r \<noteq> []"
proof (induction s)
  case Nil
  then show ?case by simp
next
  case (Cons c cs)
  show ?case
  proof (cases "match_here (One k # p) (c # cs)")
    case None
    with Cons show ?thesis by simp
  next
    case (Some n)
    then have "0 < n" by (rule match_here_One_pos)
    moreover from Some Cons.prems have "r = take n (c # cs)" by simp
    ultimately show ?thesis by (cases n) simp_all
  qed
qed

lemma digits_Suc: "digits (Suc n) = One Digit # digits n"
  by (simp add: digits_def)

lemma first_match_phone_nonempty: "first_match phone_patterns m = Some r \<Longrightarrow> r \<noteq> []"
proof -
  have "digits 11 = One Digit # digits 10"
    using digits_Suc [of 10] by simp
  then show "first_match phone_patterns m = Some r \<Longrightarrow> r \<noteq> []"
    by (auto simp: phone_patterns_def split: option.splits dest: re_search_One_nonempty)
qed

lemma address_keyword_nonempty:
  "list_ex (\<lambda>word. str_in word (str_lower m)) address_keywords \<Longrightarrow> m \<noteq> []"
  by (auto simp: str_lower_def address_keywords_def)

lemma damage_keyword_nonempty:
  "list_ex (\<lambda>word. str_in word (str_lower m)) damage_keywords \<Longrightarrow> m \<noteq> []"
  by (auto simp: str_lower_def damage_keywords_def)

lemma literals_nonempty:
  "two_vehicles \<noteq> []" "three_vehicles \<noteq> []" "no_injuries \<noteq> []" "has_injuries \<noteq> []"
  by (simp_all add: two_vehicles_def three_vehicles_def no_injuries_def has_injuries_def)

lemma extract_location_again:
  "location (fst y) = location (fst (extract_location m (str_lower m) x)) \<Longrightarrow>
   extract_location m (str_lower m) y = y"
  by (cases x; cases y)
     (auto simp: extract_location_def dest: address_keyword_nonempty split: if_splits)

lemma extract_participants_again:
  "participants (fst y) = participants (fst (extract_participants m ml x)) \<Longrightarrow>
   extract_participants m ml y = y"
  by (cases x; cases y)
     (auto simp: extract_participants_def literals_nonempty split: if_splits)

lemma extract_damage_again:
  "damage (fst y) = damage (fst (extract_damage m (str_lower m) x)) \<Longrightarrow>
   extract_damage m (str_lower m) y = y"
  by (cases x; cases y)
     (auto simp: extract_damage_def dest: damage_keyword_nonempty split: if_splits)

lemma extract_injuries_again:
  "injuries (fst y) = injuries (fst (extract_injuries m ml x)) \<Longrightarrow>
   extract_injuries m ml y = y"
  by (cases x; cases y)
     (auto simp: extract_injuries_def literals_nonempty split: if_splits)

lemma extract_contact_again:
  "contact (fst y) = contact (fst (extract_contact m x)) \<Longrightarrow> extract_contact m y = y"
  by (cases x; cases y)
     (auto simp: extract_contact_def dest: first_match_phone_nonempty
           split: if_splits option.splits)

lemma extract_twice:
  "extract_info_from_message m (fst (extract_info_from_message m app))
     = (fst (extract_info_from_message m app), [])"
proof -
  let ?ml = "str_lower m"
  let ?x1 = "extract_location m ?ml (app, [])"
  let ?x2 = "extract_participants m ?ml ?x1"
  let ?x3 = "extract_damage m ?ml ?x2"
  let ?x4 = "extract_injuries m ?ml ?x3"
  let ?x5 = "extract_contact m ?x4"
  let ?y = "(fst ?x5, [] :: string list)"
  have 1: "extract_location m ?ml ?y = ?y"
    by (rule extract_location_again [where x = "(app, [])"]) (simp add: fst_extract_blocks)
  have 2: "extract_participants m ?ml ?y = ?y"
    by (rule extract_participants_again [where x = ?x1]) (simp add: fst_extract_blocks)
  have 3: "extract_damage m ?ml ?y = ?y"
    by (rule extract_damage_again [where x = ?x2]) (simp add: fst_extract_blocks)
  have 4: "extract_injuries m ?ml ?y = ?y"
    by (rule extract_injuries_again [where x = ?x3]) (simp add: fst_extract_blocks)
  have 5: "extract_contact m ?y = ?y"
    by (rule extract_contact_again [where x = ?x4]) simp
  show ?thesis
    unfolding extract_info_from_message_def Let_def
    by (simp only: 1 2 3 4 5)
qed

text \<open>
  Claim C3. For every message and every report: a field that is set (a non-empty string)
  is left as it is by the extractor, whatever the message; a field that the extractor
  changes is set afterwards, so a later call, with any message, leaves it alone too; and
  calling the extractor again with the same message on the resulting report changes
  nothing and reports no updated key.
\<close>

theorem extractor_never_overwrites:
  "(truthy (location app) \<longrightarrow>
      location (fst (extract_info_from_message m app)) = location app)
 \<and> (truthy (participants app) \<longrightarrow>
      participants (fst (extract_info_from_message m app)) = participants app)
 \<and> (truthy (damage app) \<longrightarrow>
      damage (fst (extract_info_from_message m app)) = damage app)
 \<and> (truthy (injuries app) \<longrightarrow>
      injuries (fst (extract_info_from_message m app)) = injuries app)
 \<and> (truthy (contact app) \<longrightarrow>
      contact (fst (extract_info_from_message m app)) = contact app)
 \<and> (location (fst (extract_info_from_message m app)) \<noteq> location app \<longrightarrow>
      truthy (location (fst (extract_info_from_message m app))))
 \<and> (participants (fst (extract_info_from_message m app)) \<noteq> participants app \<longrightarrow>
      truthy (participants (fst (extract_info_from_message m app))))
 \<and> (damage (fst (extract_info_from_message m app)) \<noteq> damage app \<longrightarrow>
      truthy (damage (fst (extract_info_from_message m app))))
 \<and> (injuries (fst (extract_info_from_message m app)) \<noteq> injuries app \<longrightarrow>
      truthy (injuries (fst (extract_info_from_message m app))))
 \<and> (contact (fst (extract_info_from_message m app)) \<noteq> contact app \<longrightarrow>
      truthy (contact (fst (extract_info_from_message m app))))
 \<and> extract_info_from_message m (fst (extract_info_from_message m app))
      = (fst (extract_info_from_message m app), [])"
proof -
  have kept:
    "truthy (location app) \<longrightarrow>
       location (fst (extract_info_from_message m app)) = location app"
    "truthy (participants app) \<longrightarrow>
       participants (fst (extract_info_from_message m app)) = participants app"
    "truthy (damage app) \<longrightarrow>
       damage (fst (extract_info_from_message m app)) = damage app"
    "truthy (injuries app) \<longrightarrow>
       injuries (fst (extract_info_from_message m app)) = injuries app"
    "truthy (contact app) \<longrightarrow>
       contact (fst (extract_info_from_message m app)) = contact app"
    by (simp_all add: extract_info_from_message_def Let_def fst_extract_blocks)
  have loc: "location (fst (extract_info_from_message m app)) \<noteq> location app \<longrightarrow>
      truthy (location (fst (extract_info_from_message m app)))"
    by (auto simp: extract_info_from_message_def Let_def fst_extract_blocks
        dest: address_keyword_nonempty)
  have par: "participants (fst (extract_info_from_message m app)) \<noteq> participants app \<longrightarrow>
      truthy (participants (fst (extract_info_from_message m app)))"
    by (simp add: extract_info_from_message_def Let_def fst_extract_blocks literals_nonempty)
  have dam: "damage (fst (extract_info_from_message m app)) \<noteq> damage app \<longrightarrow>
      truthy (damage (fst (extract_info_from_message m app)))"
    by (auto simp: extract_info_from_message_def Let_def fst_extract_blocks
        dest: damage_keyword_nonempty)
  have inj: "injuries (fst (extract_info_from_message m app)) \<noteq> injuries app \<longrightarrow>
      truthy (injuries (fst (extract_info_from_message m app)))"
    by (simp add: extract_info_from_message_def Let_def fst_extract_blocks literals_nonempty)
  have con: "contact (fst (extract_info_from_message m app)) \<noteq> contact app \<longrightarrow>
      truthy (contact (fst (extract_info_from_message m app)))"
    by (auto simp: extract_info_from_message_def Let_def fst_extract_blocks
        dest: first_match_phone_nonempty split: option.splits)
  show ?thesis
    using kept loc par dam inj con extract_twice [of m app] by blast
qed

section \<open>The extractor on concrete messages\<close>

lemma digits_2: "digits 2 = [One Digit, One Digit]"
  by (simp add: digits_def numeral_2_eq_2)

lemma digits_3: "digits 3 = [One Digit, One Digit, One Digit]"
  by (simp add: digits_def numeral_3_eq_3)

lemma ascii_digit_is_decimal: "48 \<le> c \<Longrightarrow> c \<le> 57 \<Longrightarrow> is_decimal c"
  by (simp add: is_decimal_def nd_decades_def)

lemma extract_example_eval:
  "extract_info_from_message example_message (fresh_application ts) =
     (\<lparr>timestamp = ts, location = None, participants = Some two_vehicles,
       damage = None, injuries = Some no_injuries, photos_count = 0,
       contact = Some [43, 55, 57, 48, 48, 49, 50, 51, 52, 53, 54, 55]\<rparr>,
      [''participants'', ''injuries'', ''contact''])"
proof -
  have lower: "str_lower example_message =
    [1072, 1074, 1072, 1088, 1080, 1103, 32, 1085, 1072, 32, 1091, 1083,
     1080, 1094, 1077, 32, 1083, 1077, 1085, 1080, 1085, 1072, 44, 32, 1076, 1074, 1072, 32,
     1072, 1074, 1090, 1086, 1084, 1086, 1073, 1080, 1083, 1103, 44, 32, 1085, 1080, 1082,
     1090, 1086, 32, 1085, 1077, 32, 1087, 1086, 1089, 1090, 1088, 1072, 1076, 1072, 1083,
     44, 32, 43, 55, 57, 48, 48, 49, 50, 51, 52, 53, 54, 55]"
    by (simp add: str_lower_def example_message_def lower_cp_def)
  have address: "\<not> list_ex (\<lambda>word. str_in word (str_lower example_message)) address_keywords"
    unfolding lower by (simp add: address_keywords_def)
  have damage: "\<not> list_ex (\<lambda>word. str_in word (str_lower example_message)) damage_keywords"
    unfolding lower by (simp add: damage_keywords_def)
  have two: "str_in word_two (str_lower example_message)"
    unfolding lower by (simp add: word_two_def)
  have nobody: "str_in phrase_nobody_injured (str_lower example_message)"
    unfolding lower by (simp add: phrase_nobody_injured_def)
  have phone: "first_match phone_patterns example_message =
      Some [43, 55, 57, 48, 48, 49, 50, 51, 52, 53, 54, 55]"
    by (simp add: phone_patterns_def phone_tail_def digits_2 digits_3 example_message_def
        ascii_digit_is_decimal is_space_def)
  show ?thesis
    by (simp add: extract_info_from_message_def Let_def extract_location_def
        extract_participants_def extract_damage_def extract_injuries_def extract_contact_def
        fresh_application_def address damage two nobody phone)
qed

lemma extract_full_eval:
  "extract_info_from_message full_message (fresh_application ts) =
     (\<lparr>timestamp = ts, location = Some full_message, participants = Some two_vehicles,
       damage = Some full_message, injuries = Some has_injuries, photos_count = 0,
       contact = Some [56, 57, 48, 48, 49, 50, 51, 52, 53, 54, 55]\<rparr>,
      [''location'', ''participants'', ''damage'', ''injuries'', ''contact''])"
proof -
  have lower: "str_lower full_message =
    [1091, 1083, 46, 32, 1084, 1080, 1088, 1072, 32, 50, 44, 32, 1073, 1072,
     1084, 1087, 1077, 1088, 44, 32, 1088, 1072, 1085, 1077, 1085, 44, 32, 56, 57, 48, 48,
     49, 50, 51, 52, 53, 54, 55]"
    by (simp add: str_lower_def full_message_def lower_cp_def)
  have address: "list_ex (\<lambda>word. str_in word (str_lower full_message)) address_keywords"
    unfolding lower by (simp add: address_keywords_def)
  have damage: "list_ex (\<lambda>word. str_in word (str_lower full_message)) damage_keywords"
    unfolding lower by (simp add: damage_keywords_def)
  have two: "str_in [50] full_message"
    by (simp add: full_message_def)
  have no_inj: "\<not> str_in phrase_no_injured (str_lower full_message)"
      "\<not> str_in phrase_nobody_injured (str_lower full_message)"
    unfolding lower by (simp_all add: phrase_no_injured_def phrase_nobody_injured_def)
  have wounded: "str_in word_wounded (str_lower full_message)"
    unfolding lower by (simp add: word_wounded_def)
  have phone: "first_match phone_patterns full_message =
      Some [56, 57, 48, 48, 49, 50, 51, 52, 53, 54, 55]"
    by (simp add: phone_patterns_def phone_tail_def digits_2 digits_3 full_message_def
        ascii_digit_is_decimal is_space_def)
  show ?thesis
    by (simp add: extract_info_from_message_def Let_def extract_location_def
        extract_participants_def extract_damage_def extract_injuries_def extract_contact_def
        fresh_application_def address damage two no_inj wounded phone)
qed

text \<open>
  Witness for claim C3: on a report with every field filled the example message changes
  nothing, and on a fresh report the message that fires all five rules fills all five
  fields, which a second call then leaves alone.
\<close>

theorem extractor_never_overwrites_witness:
  "truthy (location \<lparr>timestamp = [], location = Some [120], participants = Some [120],
       damage = Some [120], injuries = Some [120], photos_count = 0, contact = Some [120]\<rparr>)
   \<and> fst (extract_info_from_message example_message
        \<lparr>timestamp = [], location = Some [120], participants = Some [120],
         damage = Some [120], injuries = Some [120], photos_count = 0, contact = Some [120]\<rparr>)
      = \<lparr>timestamp = [], location = Some [120], participants = Some [120],
         damage = Some [120], injuries = Some [120], photos_count = 0, contact = Some [120]\<rparr>
   \<and> location (fst (extract_info_from_message full_message (fresh_application [])))
        \<noteq> location (fresh_application [])
   \<and> truthy (location (fst (extract_info_from_message full_message (fresh_application []))))
   \<and> truthy (participants (fst (extract_info_from_message full_message (fresh_application []))))
   \<and> truthy (damage (fst (extract_info_from_message full_message (fresh_application []))))
   \<and> truthy (injuries (fst (extract_info_from_message full_message (fresh_application []))))
   \<and> truthy (contact (fst (extract_info_from_message full_message (fresh_application []))))
   \<and> extract_info_from_message full_message
        (fst (extract_info_from_message full_message (fresh_application [])))
      = (fst (extract_info_from_message full_message (fresh_application [])), [])"
proof -
  let ?filled = "\<lparr>timestamp = [], location = Some [120], participants = Some [120],
       damage = Some [120], injuries = Some [120], photos_count = 0, contact = Some [120]\<rparr>"
  let ?r = "fst (extract_info_from_message example_message ?filled)"
  have filled: "truthy (location ?filled)" "truthy (participants ?filled)"
    "truthy (damage ?filled)" "truthy (injuries ?filled)" "truthy (contact ?filled)"
    by simp_all
  have same: "timestamp ?r = []" "photos_count ?r = 0"
    by (simp_all add: extract_info_from_message_def Let_def fst_extract_blocks)
  have "location ?r = Some [120]" "participants ?r = Some [120]" "damage ?r = Some [120]"
    "injuries ?r = Some [120]" "contact ?r = Some [120]"
    using extractor_never_overwrites [of ?filled example_message] filled by simp_all
  with same have 1: "?r = ?filled"
    by (cases ?r) simp
  have changed:
    "location (fst (extract_info_from_message full_message (fresh_application [])))
       \<noteq> location (fresh_application [])"
    "participants (fst (extract_info_from_message full_message (fresh_application [])))
       \<noteq> participants (fresh_application [])"
    "damage (fst (extract_info_from_message full_message (fresh_application [])))
       \<noteq> damage (fresh_application [])"
    "injuries (fst (extract_info_from_message full_message (fresh_application [])))
       \<noteq> injuries (fresh_application [])"
    "contact (fst (extract_info_from_message full_message (fresh_application [])))
       \<noteq> contact (fresh_application [])"
    by (simp_all add: extract_full_eval) (simp_all add: fresh_application_def)
  show ?thesis
    using extractor_never_overwrites [of "fresh_application []" full_message] changed filled 1
    by blast
qed

section \<open>The example of the specification\<close>

text \<open>
  Claim C2, as stated, fails: the extractor does not store the example message as the
  location of a fresh report.
\<close>

theorem example_extraction_counterexample:
  "\<not> (location (fst (extract_info_from_message example_message (fresh_application [])))
         = Some example_message
      \<and> participants (fst (extract_info_from_message example_message (fresh_application [])))
         = Some two_vehicles
      \<and> injuries (fst (extract_info_from_message example_message (fresh_application [])))
         = Some no_injuries
      \<and> contact (fst (extract_info_from_message example_message (fresh_application [])))
         = Some [43, 55, 57, 48, 48, 49, 50, 51, 52, 53, 54, 55]
      \<and> damage (fst (extract_info_from_message example_message (fresh_application [])))
         = None)"
  by (simp add: extract_example_eval)

text \<open>
  Claim C2, amended. On a fresh report the example message fills, in one pass,
  \<open>participants\<close> with the literal two-vehicles string, \<open>injuries\<close> with the literal
  no-injuries string and \<open>contact\<close> with \<open>+79001234567\<close>; \<open>damage\<close> stays unset, and so
  does \<open>location\<close>, because no address keyword occurs in the message. The keys reported
  are those three, in this order.
\<close>

theorem example_extraction:
  "extract_info_from_message example_message (fresh_application ts) =
     (\<lparr>timestamp = ts, location = None, participants = Some two_vehicles,
       damage = None, injuries = Some no_injuries, photos_count = 0,
       contact = Some [43, 55, 57, 48, 48, 49, 50, 51, 52, 53, 54, 55]\<rparr>,
      [''participants'', ''injuries'', ''contact''])"
  by (rule extract_example_eval)

section \<open>Finishing the assisted interview\<close>

lemma finish_texts:
  "\<not> str_in label_phone (please_specify @ label_location)"
  "\<not> str_in label_location (please_specify @ label_phone)"
  "str_in label_phone (please_specify @ label_phone)"
  "str_in label_location (please_specify @ label_location)"
  "str_in label_phone (please_specify @ label_location @ 44 # 32 # label_phone)"
  "str_in label_location (please_specify @ label_location @ 44 # 32 # label_phone)"
  by (simp_all add: please_specify_def label_location_def label_phone_def)

text \<open>
  Claim C1. When the message is one of the finish words (in any case) in state
  \<open>AI_CHAT\<close>, the next state is \<open>CONFIRM\<close> if and only if \<open>location\<close> and \<open>contact\<close>
  of the report are both set, whatever the other fields hold. Otherwise the state stays
  \<open>AI_CHAT\<close>, the session data are unchanged, and the single reply is the request text
  followed by the names of the missing fields: it names the place exactly when
  \<open>location\<close> is unset and the phone exactly when \<open>contact\<close> is unset.
\<close>

theorem finish_requires_location_and_contact:
  assumes "str_lower user_message \<in> set finish_words"
  shows "(fst (ai_chat openai_client user_message ud) = CONFIRM \<longleftrightarrow>
            truthy (location (user_application ud)) \<and> truthy (contact (user_application ud)))
       \<and> (\<not> (truthy (location (user_application ud)) \<and> truthy (contact (user_application ud)))
            \<longrightarrow> ai_chat openai_client user_message ud =
                  (AI_CHAT,
                   [Text (please_specify @ str_join [44, 32]
                     ((if truthy (location (user_application ud)) then [] else [label_location])
                      @ (if truthy (contact (user_application ud)) then [] else [label_phone])))],
                   ud)
              \<and> (str_in label_location (please_specify @ str_join [44, 32]
                     ((if truthy (location (user_application ud)) then [] else [label_location])
                      @ (if truthy (contact (user_application ud)) then [] else [label_phone])))
                    \<longleftrightarrow> \<not> truthy (location (user_application ud)))
              \<and> (str_in label_phone (please_specify @ str_join [44, 32]
                     ((if truthy (location (user_application ud)) then [] else [label_location])
                      @ (if truthy (contact (user_application ud)) then [] else [label_phone])))
                    \<longleftrightarrow> \<not> truthy (contact (user_application ud))))"
  using assms
  by (auto simp: ai_chat_def finish_ai_application_def Let_def finish_texts)

text \<open>
  The message "GOTOVO" in capitals, with the location filled and no contact: the reply
  asks for the phone and the state stays \<open>AI_CHAT\<close>.
\<close>

theorem finish_requires_location_and_contact_witness:
  "str_lower [1043, 1054, 1058, 1054, 1042, 1054] \<in> set finish_words
   \<and> ai_chat None [1043, 1054, 1058, 1054, 1042, 1054]
        \<lparr>user_application = (fresh_application [])\<lparr>location := Some [1076, 1086, 1084]\<rparr>,
         user_ai_history = []\<rparr>
     = (AI_CHAT, [Text (please_specify @ label_phone)],
        \<lparr>user_application = (fresh_application [])\<lparr>location := Some [1076, 1086, 1084]\<rparr>,
         user_ai_history = []\<rparr>)"
proof -
  have word: "str_lower [1043, 1054, 1058, 1054, 1042, 1054] \<in> set finish_words"
    by (simp add: str_lower_def lower_cp_def finish_words_def)
  show ?thesis
    using word
      finish_requires_location_and_contact [OF word, of None
        "\<lparr>user_application = (fresh_application [])\<lparr>location := Some [1076, 1086, 1084]\<rparr>,
          user_ai_history = []\<rparr>"]
    by (simp add: fresh_application_def)
qed

section \<open>The request to the text-generation backend\<close>

text \<open>
  Claim C7. For every history, the request that \<open>get_ai_response\<close> hands to the backend
  is the system message, then the last ten turns of the history, then the new user
  message. The turns taken are \<open>min 10 (length history)\<close> many, they are the whole
  history when it has at most ten turns, and the history is the turns left out followed
  by the turns taken, so no older turn is in the request.
\<close>

theorem request_has_last_ten_turns:
  "request_messages user_message conversation_history application_data =
     \<lparr>role = ''system'', content = System_prompt application_data\<rparr>
     # py_last 10 conversation_history
     @ [\<lparr>role = ''user'', content = Plain user_message\<rparr>]
   \<and> length (py_last 10 conversation_history) = min 10 (length conversation_history)
   \<and> take (length conversation_history - 10) conversation_history
       @ py_last 10 conversation_history = conversation_history
   \<and> (length conversation_history \<le> 10 \<longrightarrow>
        py_last 10 conversation_history = conversation_history)
   \<and> get_ai_response (Some create) user_message conversation_history application_data
       = (case create (\<lparr>role = ''system'', content = System_prompt application_data\<rparr>
                # py_last 10 conversation_history
                @ [\<lparr>role = ''user'', content = Plain user_message\<rparr>]) of
            Some ai_message \<Rightarrow> ai_message | None \<Rightarrow> ai_error)"
  by (auto simp: request_messages_def py_last_def get_ai_response_def)

text \<open>A history of two turns is sent whole.\<close>

theorem request_has_last_ten_turns_witness:
  "length [\<lparr>role = ''user'', content = Plain [49]\<rparr>,
           \<lparr>role = ''assistant'', content = Plain [50]\<rparr>] \<le> 10
   \<and> request_messages [51]
        [\<lparr>role = ''user'', content = Plain [49]\<rparr>,
         \<lparr>role = ''assistant'', content = Plain [50]\<rparr>] (fresh_application [])
     = [\<lparr>role = ''system'', content = System_prompt (fresh_application [])\<rparr>,
        \<lparr>role = ''user'', content = Plain [49]\<rparr>,
        \<lparr>role = ''assistant'', content = Plain [50]\<rparr>,
        \<lparr>role = ''user'', content = Plain [51]\<rparr>]"
  using request_has_last_ten_turns [of "[51]"
      "[\<lparr>role = ''user'', content = Plain [49]\<rparr>,
        \<lparr>role = ''assistant'', content = Plain [50]\<rparr>]" "fresh_application []"]
  by simp

section \<open>The order of the guided form\<close>

lemma run_guided_outside: "guided_handler st = None \<Longrightarrow> run_guided st ud texts = ([], ud)"
  by (cases texts) simp_all

lemma run_guided_from_contact:
  "fst (run_guided CONTACT ud texts) = take (length texts) [CONFIRM]"
  by (cases texts) (simp_all add: get_contact_def Let_def run_guided_outside)

lemma run_guided_from_injuries:
  "fst (run_guided INJURIES ud texts) = take (length texts) [CONTACT, CONFIRM]"
  by (cases texts)
     (simp_all add: get_injuries_def case_prod_beta run_guided_from_contact)

lemma run_guided_from_damage:
  "fst (run_guided DAMAGE ud texts) = take (length texts) [INJURIES, CONTACT, CONFIRM]"
  by (cases texts)
     (simp_all add: get_damage_def case_prod_beta run_guided_from_injuries)

lemma run_guided_from_participants:
  "fst (run_guided PARTICIPANTS ud texts) =
     take (length texts) [DAMAGE, INJURIES, CONTACT, CONFIRM]"
  by (cases texts)
     (simp_all add: get_participants_def case_prod_beta run_guided_from_damage)

lemma run_guided_from_location:
  "fst (run_guided LOCATION ud texts) =
     take (length texts) [PARTICIPANTS, DAMAGE, INJURIES, CONTACT, CONFIRM]"
  by (cases texts)
     (simp_all add: get_location_def case_prod_beta run_guided_from_participants)

lemma run_guided_five:
  "run_guided LOCATION ud [t1, t2, t3, t4, t5] =
     ([PARTICIPANTS, DAMAGE, INJURIES, CONTACT, CONFIRM],
      ud\<lparr>user_application := (user_application ud)\<lparr>location := Some t1,
           participants := Some t2, damage := Some t3, injuries := Some t4,
           contact := Some t5\<rparr>\<rparr>)"
  by (simp add: get_location_def get_participants_def get_damage_def get_injuries_def
      get_contact_def Let_def)

text \<open>
  Claim C8. Each handler of the guided form stores the text it receives, as it is, into
  its own field and returns the next state of the fixed order. Hence, started in
  \<open>LOCATION\<close>, any sequence of text messages makes the form enter the states
  \<open>PARTICIPANTS\<close>, \<open>DAMAGE\<close>, \<open>INJURIES\<close>, \<open>CONTACT\<close>, \<open>CONFIRM\<close> in this order, one per
  message, none skipped and none repeated; five messages reach \<open>CONFIRM\<close> with the five
  texts in the five fields.
\<close>

theorem guided_form_order:
  "get_location t ud =
     (PARTICIPANTS, [Ask_participants],
      ud\<lparr>user_application := (user_application ud)\<lparr>location := Some t\<rparr>\<rparr>)
   \<and> get_participants t ud =
     (DAMAGE, [Ask_damage],
      ud\<lparr>user_application := (user_application ud)\<lparr>participants := Some t\<rparr>\<rparr>)
   \<and> get_damage t ud =
     (INJURIES, [Ask_injuries],
      ud\<lparr>user_application := (user_application ud)\<lparr>damage := Some t\<rparr>\<rparr>)
   \<and> get_injuries t ud =
     (CONTACT, [Ask_contact],
      ud\<lparr>user_application := (user_application ud)\<lparr>injuries := Some t\<rparr>\<rparr>)
   \<and> fst (get_contact t ud) = CONFIRM
   \<and> snd (snd (get_contact t ud)) =
      ud\<lparr>user_application := (user_application ud)\<lparr>contact := Some t\<rparr>\<rparr>
   \<and> fst (run_guided LOCATION ud texts) =
      take (length texts) [PARTICIPANTS, DAMAGE, INJURIES, CONTACT, CONFIRM]
   \<and> run_guided LOCATION ud [t1, t2, t3, t4, t5] =
     ([PARTICIPANTS, DAMAGE, INJURIES, CONTACT, CONFIRM],
      ud\<lparr>user_application := (user_application ud)\<lparr>location := Some t1,
           participants := Some t2, damage := Some t3, injuries := Some t4,
           contact := Some t5\<rparr>\<rparr>)"
  by (simp add: run_guided_from_location run_guided_five)
     (simp add: get_location_def get_participants_def get_damage_def get_injuries_def
      get_contact_def Let_def)

section \<open>The broadcast\<close>

lemma attempted_append: "attempted (log @ log') = attempted log @ attempted log'"
  by (induction log rule: attempted.induct) simp_all

lemma delivered_append: "delivered (log @ log') = delivered log @ delivered log'"
  by (induction log rule: delivered.induct) simp_all

lemma send_loop_log:
  "send_loop send message admins net k log = (net', k', log') \<Longrightarrow>
   attempted log' = attempted log @ admins
   \<and> k' + length (delivered log) = k + length (delivered log')"
proof (induction admins arbitrary: net k log)
  case Nil
  then show ?case by simp
next
  case (Cons a admins)
  obtain ok net1 where s: "send net a message = (ok, net1)"
    by (cases "send net a message")
  show ?case
  proof (cases ok)
    case True
    with Cons.prems s
    have "send_loop send message admins net1 (k + 1) (log @ [Info_sent a]) = (net', k', log')"
      by simp
    from Cons.IH [OF this] show ?thesis
      by (simp add: attempted_append delivered_append)
  next
    case False
    with Cons.prems s
    have "send_loop send message admins net1 k (log @ [Error_send a]) = (net', k', log')"
      by simp
    from Cons.IH [OF this] show ?thesis
      by (simp add: attempted_append delivered_append)
  qed
qed

lemma flaky_send_apply:
  "flaky_send bad net chat_id message =
     (if chat_id \<in> set bad then (False, net) else (True, net @ [chat_id]))"
  by (simp add: flaky_send_def)

lemma send_loop_flaky:
  "send_loop (flaky_send bad) message admins net k log = (net', k', log') \<Longrightarrow>
   net' = net @ filter (\<lambda>a. a \<notin> set bad) admins
   \<and> delivered log' = delivered log @ filter (\<lambda>a. a \<notin> set bad) admins"
proof (induction admins arbitrary: net k log)
  case Nil
  then show ?case by simp
next
  case (Cons a admins)
  show ?case
  proof (cases "a \<in> set bad")
    case True
    then have "send_loop (flaky_send bad) message (a # admins) net k log
        = send_loop (flaky_send bad) message admins net k (log @ [Error_send a])"
      by (simp add: flaky_send_apply)
    with Cons.prems
    have "send_loop (flaky_send bad) message admins net k (log @ [Error_send a]) = (net', k', log')"
      by (simp only:)
    from Cons.IH [OF this] True show ?thesis
      by (simp add: delivered_append)
  next
    case False
    then have "send_loop (flaky_send bad) message (a # admins) net k log
        = send_loop (flaky_send bad) message admins (net @ [a]) (k + 1) (log @ [Info_sent a])"
      by (simp add: flaky_send_apply)
    with Cons.prems
    have "send_loop (flaky_send bad) message admins (net @ [a]) (k + 1) (log @ [Info_sent a])
            = (net', k', log')"
      by (simp only:)
    from Cons.IH [OF this] False show ?thesis
      by (simp add: delivered_append)
  qed
qed

text \<open>
  Claim C5. For every non-empty roster and every transport, the broadcaster attempts a
  delivery to each recipient of the roster, in order, whether or not earlier deliveries
  failed, and the last line of its log reports the number of successful deliveries out of
  the size of the roster. With a transport on which exactly the chats in \<open>bad\<close> are
  unreachable, the recipients outside \<open>bad\<close> all receive the message.
\<close>

theorem broadcast_reaches_every_admin:
  assumes "load_admins st \<noteq> []"
  shows "attempted (fst (send_to_admins send st message net)) = load_admins st
       \<and> last (fst (send_to_admins send st message net))
           = Info_sent_count (length (delivered (fst (send_to_admins send st message net))))
               (length (load_admins st))
       \<and> delivered (fst (send_to_admins (flaky_send bad) st message []))
           = filter (\<lambda>a. a \<notin> set bad) (load_admins st)
       \<and> snd (send_to_admins (flaky_send bad) st message [])
           = filter (\<lambda>a. a \<notin> set bad) (load_admins st)"
proof -
  obtain net' k' log' where
    run: "send_loop send message (load_admins st) net 0 [] = (net', k', log')"
    by (cases "send_loop send message (load_admins st) net 0 []") auto
  obtain net2 k2 log2 where
    run2: "send_loop (flaky_send bad) message (load_admins st) [] 0 [] = (net2, k2, log2)"
    by (cases "send_loop (flaky_send bad) message (load_admins st) ([] :: int list) 0 []") auto
  from send_loop_log [OF run] send_loop_flaky [OF run2] assms run run2
  show ?thesis
    by (simp add: send_to_admins_def Let_def attempted_append delivered_append)
qed

text \<open>
  A roster of three with the second recipient unreachable: the other two receive the
  message and the count reported is 2 of 3.
\<close>

theorem broadcast_reaches_every_admin_witness:
  "load_admins \<lparr>admins_file = Some [1, 2, 3], next_write = Write_succeeds\<rparr> \<noteq> []
   \<and> send_to_admins (flaky_send [2]) \<lparr>admins_file = Some [1, 2, 3], next_write = Write_succeeds\<rparr>
        [82 :: nat] []
     = ([Info_sent 1, Error_send 2, Info_sent 3, Info_sent_count 2 3], [1, 3])"
  using broadcast_reaches_every_admin
    [of "\<lparr>admins_file = Some [1, 2, 3], next_write = Write_succeeds\<rparr>" "flaky_send [2]"
        "[82 :: nat]" "[]" "[2]"]
  by (simp add: send_to_admins_def load_admins_def flaky_send_apply)

text \<open>
  Claim C6. When the roster is empty and the user confirms, the broadcast makes no
  delivery attempt, leaves the transport as it was and logs only the warning; the
  conversation ends with the success acknowledgment, which is the acknowledgment sent
  for any roster, transport and transport state.
\<close>

theorem empty_roster_still_acknowledged:
  assumes "load_admins st = []" and "str_in [9989] choice"
  shows "confirm_application send choice ud user st net
           = (END, [Submitted], [Warn_no_admins], net)
       \<and> attempted [Warn_no_admins] = []
       \<and> fst (confirm_application send' choice ud user st' net') = END
       \<and> fst (snd (confirm_application send' choice ud user st' net')) = [Submitted]"
  using assms
  by (simp add: confirm_application_def send_to_admins_def Let_def case_prod_beta)

text \<open>No roster file, so the built-in empty list is used.\<close>

theorem empty_roster_still_acknowledged_witness:
  "load_admins \<lparr>admins_file = None, next_write = Write_succeeds\<rparr> = []
   \<and> str_in [9989] [9989, 32, 1044, 1072]
   \<and> confirm_application (flaky_send []) [9989, 32, 1044, 1072]
        \<lparr>user_application = fresh_application [], user_ai_history = []\<rparr>
        \<lparr>first_name = [65], username = None, user_id = 5\<rparr>
        \<lparr>admins_file = None, next_write = Write_succeeds\<rparr> []
       = (END, [Submitted], [Warn_no_admins], [])"
proof -
  have 1: "load_admins \<lparr>admins_file = None, next_write = Write_succeeds\<rparr> = []"
    by (simp add: load_admins_def ADMIN_IDS_def)
  have 2: "str_in [9989] [9989, 32, 1044, 1072]"
    by simp
  have "confirm_application (flaky_send []) [9989, 32, 1044, 1072]
        \<lparr>user_application = fresh_application [], user_ai_history = []\<rparr>
        \<lparr>first_name = [65], username = None, user_id = 5\<rparr>
        \<lparr>admins_file = None, next_write = Write_succeeds\<rparr> []
       = (END, [Submitted], [Warn_no_admins], [])"
    by (rule empty_roster_still_acknowledged [OF 1 2, THEN conjunct1])
  with 1 2 show ?thesis by blast
qed

section \<open>Removing an administrator\<close>

text \<open>The handler on a target that is in the roster, case by case.\<close>

lemma admin_remove_handler_present:
  "target \<in> set (load_admins st) \<Longrightarrow>
   admin_remove_handler (Some target) actor st =
     (if target = actor \<and> length (load_admins st) = 1
      then (fst (admin_menu actor st), Last_admin_guard # snd (admin_menu actor st), st)
      else case next_write st of
             Write_succeeds \<Rightarrow>
               (fst (admin_menu actor (st\<lparr>admins_file := Some (remove1 target (load_admins st))\<rparr>)),
                Admin_removed target
                  # snd (admin_menu actor (st\<lparr>admins_file := Some (remove1 target (load_admins st))\<rparr>)),
                st\<lparr>admins_file := Some (remove1 target (load_admins st))\<rparr>)
           | Open_fails \<Rightarrow>
               (fst (admin_menu actor st), Save_failed # snd (admin_menu actor st), st)
           | Write_fails left \<Rightarrow>
               (fst (admin_menu actor (st\<lparr>admins_file := left\<rparr>)),
                Save_failed # snd (admin_menu actor (st\<lparr>admins_file := left\<rparr>)),
                st\<lparr>admins_file := left\<rparr>))"
  by (simp add: admin_remove_handler_def save_admins_def Let_def case_prod_beta
      split: write_outcome.splits)

lemma guard_not_in_menu: "Last_admin_guard \<notin> set (snd (admin_menu actor st))"
  by (simp add: admin_menu_def)

lemma admin_menu_of_admin:
  "actor \<in> set (load_admins st) \<Longrightarrow>
   admin_menu actor st = (ADMIN_MENU, [Admin_menu_text (load_admins st)])"
  by (simp add: admin_menu_def is_admin_def)

lemma admin_menu_of_other:
  "actor \<notin> set (load_admins st) \<Longrightarrow> admin_menu actor st = (END, [No_access])"
  by (simp add: admin_menu_def is_admin_def)

lemma load_admins_stored: "load_admins (st\<lparr>admins_file := Some admins\<rparr>) = admins"
  by (simp add: load_admins_def)

text \<open>
  Claim C4, as stated, fails: with roster \<open>{42, 7}\<close>, caller 42 and target 42 the guard
  does not reject, and yet, the file being impossible to open for writing, the reply is
  the save error and the stored roster still contains the target.
\<close>

theorem remove_guard_counterexample:
  "(42 :: int) \<in> set (load_admins \<lparr>admins_file = Some [42, 7], next_write = Open_fails\<rparr>)
   \<and> \<not> ((42 :: int) = 42
          \<and> length (load_admins \<lparr>admins_file = Some [42, 7], next_write = Open_fails\<rparr>) = 1)
   \<and> admin_remove_handler (Some 42) 42 \<lparr>admins_file = Some [42, 7], next_write = Open_fails\<rparr>
       = (ADMIN_MENU, [Save_failed, Admin_menu_text [42, 7]],
          \<lparr>admins_file = Some [42, 7], next_write = Open_fails\<rparr>)
   \<and> load_admins (snd (snd (admin_remove_handler (Some 42) 42
          \<lparr>admins_file = Some [42, 7], next_write = Open_fails\<rparr>)))
       \<noteq> remove1 42 (load_admins \<lparr>admins_file = Some [42, 7], next_write = Open_fails\<rparr>)
   \<and> (42 :: int) \<in> set (load_admins (snd (snd (admin_remove_handler (Some 42) 42
          \<lparr>admins_file = Some [42, 7], next_write = Open_fails\<rparr>))))"
  by (simp add: admin_remove_handler_def save_admins_def admin_menu_def is_admin_def
      load_admins_def Let_def)

text \<open>
  Claim C4, amended. For every roster, acting administrator and numeric target that is in
  the roster: the remove operation answers with the last-administrator guard, and leaves
  the storage alone, if and only if the target is the caller and the roster has exactly
  one entry. In every other case the handler removes (the first occurrence of) the target
  from the roster it loaded and saves the result. When the save succeeds, the stored
  roster is the old one without the target, which no longer contains it if the roster had
  no duplicates, and the reply confirms the removal. When the save fails, the reply is the
  save error, and the file is as it was if it could not be opened, or holds what was
  written before the error if it had been opened.
\<close>

theorem remove_guard:
  assumes "target \<in> set (load_admins st)"
  shows "(Last_admin_guard \<in> set (fst (snd (admin_remove_handler (Some target) actor st)))
           \<longleftrightarrow> target = actor \<and> length (load_admins st) = 1)
       \<and> (target = actor \<and> length (load_admins st) = 1 \<longrightarrow>
            admin_remove_handler (Some target) actor st
              = (ADMIN_MENU, [Last_admin_guard, Admin_menu_text (load_admins st)], st))
       \<and> (\<not> (target = actor \<and> length (load_admins st) = 1)
            \<and> next_write st = Write_succeeds \<longrightarrow>
            admin_remove_handler (Some target) actor st
              = (fst (admin_menu actor (st\<lparr>admins_file := Some (remove1 target (load_admins st))\<rparr>)),
                 Admin_removed target
                   # snd (admin_menu actor (st\<lparr>admins_file := Some (remove1 target (load_admins st))\<rparr>)),
                 st\<lparr>admins_file := Some (remove1 target (load_admins st))\<rparr>)
            \<and> load_admins (snd (snd (admin_remove_handler (Some target) actor st)))
                = remove1 target (load_admins st)
            \<and> (distinct (load_admins st) \<longrightarrow>
                 target \<notin> set (load_admins (snd (snd (admin_remove_handler (Some target) actor st))))))
       \<and> (\<not> (target = actor \<and> length (load_admins st) = 1)
            \<and> next_write st = Open_fails \<longrightarrow>
            admin_remove_handler (Some target) actor st
              = (fst (admin_menu actor st), Save_failed # snd (admin_menu actor st), st))
       \<and> (\<not> (target = actor \<and> length (load_admins st) = 1)
            \<and> next_write st = Write_fails left \<longrightarrow>
            admin_remove_handler (Some target) actor st
              = (fst (admin_menu actor (st\<lparr>admins_file := left\<rparr>)),
                 Save_failed # snd (admin_menu actor (st\<lparr>admins_file := left\<rparr>)),
                 st\<lparr>admins_file := left\<rparr>))"
proof -
  note h = admin_remove_handler_present [OF assms, of actor]
  have guard: "Last_admin_guard \<in> set (fst (snd (admin_remove_handler (Some target) actor st)))
           \<longleftrightarrow> target = actor \<and> length (load_admins st) = 1"
    by (simp add: h guard_not_in_menu split: write_outcome.splits)
  have rejected: "target = actor \<and> length (load_admins st) = 1 \<longrightarrow>
            admin_remove_handler (Some target) actor st
              = (ADMIN_MENU, [Last_admin_guard, Admin_menu_text (load_admins st)], st)"
    using assms by (auto simp: admin_remove_handler_present admin_menu_of_admin)
  have saved: "\<not> (target = actor \<and> length (load_admins st) = 1)
            \<and> next_write st = Write_succeeds \<longrightarrow>
            admin_remove_handler (Some target) actor st
              = (fst (admin_menu actor (st\<lparr>admins_file := Some (remove1 target (load_admins st))\<rparr>)),
                 Admin_removed target
                   # snd (admin_menu actor (st\<lparr>admins_file := Some (remove1 target (load_admins st))\<rparr>)),
                 st\<lparr>admins_file := Some (remove1 target (load_admins st))\<rparr>)
            \<and> load_admins (snd (snd (admin_remove_handler (Some target) actor st)))
                = remove1 target (load_admins st)
            \<and> (distinct (load_admins st) \<longrightarrow>
                 target \<notin> set (load_admins (snd (snd (admin_remove_handler (Some target) actor st)))))"
    by (simp add: h load_admins_stored)
  have not_opened: "\<not> (target = actor \<and> length (load_admins st) = 1)
            \<and> next_write st = Open_fails \<longrightarrow>
            admin_remove_handler (Some target) actor st
              = (fst (admin_menu actor st), Save_failed # snd (admin_menu actor st), st)"
    by (simp add: h)
  have cut: "\<not> (target = actor \<and> length (load_admins st) = 1)
            \<and> next_write st = Write_fails left \<longrightarrow>
            admin_remove_handler (Some target) actor st
              = (fst (admin_menu actor (st\<lparr>admins_file := left\<rparr>)),
                 Save_failed # snd (admin_menu actor (st\<lparr>admins_file := left\<rparr>)),
                 st\<lparr>admins_file := left\<rparr>)"
    by (simp add: h)
  from guard rejected saved not_opened cut show ?thesis
    by (intro conjI)
qed

text \<open>
  The two examples of the specification, with a save that succeeds: roster \<open>{42}\<close>,
  caller 42, target 42 is rejected; roster \<open>{42, 7}\<close>, caller 42, target 42 is allowed,
  and the caller, no longer an administrator, is then refused the menu. And roster
  \<open>{42, 7}\<close>, caller 7, target 42 with a write that fails after the file was emptied:
  the reply is the save error, the roster is empty and the caller is refused the menu.
\<close>

theorem remove_guard_witness:
  "(42 :: int) \<in> set (load_admins \<lparr>admins_file = Some [42], next_write = Write_succeeds\<rparr>)
   \<and> admin_remove_handler (Some 42) 42 \<lparr>admins_file = Some [42], next_write = Write_succeeds\<rparr>
       = (ADMIN_MENU, [Last_admin_guard, Admin_menu_text [42]],
          \<lparr>admins_file = Some [42], next_write = Write_succeeds\<rparr>)
   \<and> (42 :: int) \<in> set (load_admins \<lparr>admins_file = Some [42, 7], next_write = Write_succeeds\<rparr>)
   \<and> distinct (load_admins \<lparr>admins_file = Some [42, 7], next_write = Write_succeeds\<rparr>)
   \<and> admin_remove_handler (Some 42) 42 \<lparr>admins_file = Some [42, 7], next_write = Write_succeeds\<rparr>
       = (END, [Admin_removed 42, No_access],
          \<lparr>admins_file = Some [7], next_write = Write_succeeds\<rparr>)
   \<and> (42 :: int) \<in> set (load_admins \<lparr>admins_file = Some [42, 7], next_write = Open_fails\<rparr>)
   \<and> admin_remove_handler (Some 42) 7 \<lparr>admins_file = Some [42, 7], next_write = Open_fails\<rparr>
       = (ADMIN_MENU, [Save_failed, Admin_menu_text [42, 7]],
          \<lparr>admins_file = Some [42, 7], next_write = Open_fails\<rparr>)
   \<and> (42 :: int) \<in> set (load_admins
          \<lparr>admins_file = Some [42, 7], next_write = Write_fails (Some [])\<rparr>)
   \<and> admin_remove_handler (Some 42) 7
          \<lparr>admins_file = Some [42, 7], next_write = Write_fails (Some [])\<rparr>
       = (END, [Save_failed, No_access],
          \<lparr>admins_file = Some [], next_write = Write_fails (Some [])\<rparr>)"
  using remove_guard [of 42 "\<lparr>admins_file = Some [42], next_write = Write_succeeds\<rparr>" 42]
    remove_guard [of 42 "\<lparr>admins_file = Some [42, 7], next_write = Write_succeeds\<rparr>" 42]
    remove_guard [of 42 "\<lparr>admins_file = Some [42, 7], next_write = Open_fails\<rparr>" 7]
    remove_guard [of 42 "\<lparr>admins_file = Some [42, 7], next_write = Write_fails (Some [])\<rparr>" 7
      "Some []"]
  by (simp add: load_admins_def admin_menu_def is_admin_def)

text \<open>
  Claim C10, as stated, fails: with roster \<open>{7}\<close>, caller 42 and target 7, the file being
  impossible to open for writing, the removal does not succeed and no empty roster is
  persisted: the reply is the save error and the stored roster is still \<open>{7}\<close>.
\<close>

theorem remove_last_other_admin_counterexample:
  "load_admins \<lparr>admins_file = Some [7], next_write = Open_fails\<rparr> = [7]
   \<and> (42 :: int) \<noteq> 7
   \<and> admin_remove_handler (Some 7) 42 \<lparr>admins_file = Some [7], next_write = Open_fails\<rparr>
       = (END, [Save_failed, No_access], \<lparr>admins_file = Some [7], next_write = Open_fails\<rparr>)
   \<and> load_admins (snd (snd (admin_remove_handler (Some 7) 42
          \<lparr>admins_file = Some [7], next_write = Open_fails\<rparr>))) \<noteq> []"
  by (simp add: admin_remove_handler_def save_admins_def admin_menu_def is_admin_def
      load_admins_def Let_def)

text \<open>
  Claim C10, amended. The guard covers self-removal only. For every roster with exactly
  one identity \<open>x\<close> and every caller other than \<open>x\<close> who names \<open>x\<close> as the target, the
  handler does not answer with the guard: it saves the empty roster. When the save
  succeeds, the reply confirms the removal and the stored roster is empty, so the roster
  can become empty through the remove operation; the caller is then not an administrator
  and the conversation ends with the refusal of the menu. When the save fails, the reply
  is the save error, and the file is as it was if it could not be opened, or holds what
  was written before the error if it had been opened.
\<close>

theorem remove_last_other_admin:
  assumes "load_admins st = [x]" and "actor \<noteq> x"
  shows "Last_admin_guard \<notin> set (fst (snd (admin_remove_handler (Some x) actor st)))
       \<and> (next_write st = Write_succeeds \<longrightarrow>
            admin_remove_handler (Some x) actor st
              = (END, [Admin_removed x, No_access], st\<lparr>admins_file := Some []\<rparr>)
            \<and> load_admins (snd (snd (admin_remove_handler (Some x) actor st))) = [])
       \<and> (next_write st = Open_fails \<longrightarrow>
            admin_remove_handler (Some x) actor st = (END, [Save_failed, No_access], st))
       \<and> (next_write st = Write_fails left \<longrightarrow>
            admin_remove_handler (Some x) actor st
              = (fst (admin_menu actor (st\<lparr>admins_file := left\<rparr>)),
                 Save_failed # snd (admin_menu actor (st\<lparr>admins_file := left\<rparr>)),
                 st\<lparr>admins_file := left\<rparr>))"
proof -
  from assms(1) have present: "x \<in> set (load_admins st)"
    by simp
  from assms have other: "actor \<notin> set (load_admins st)"
    by simp
  note h = admin_remove_handler_present [OF present, of actor]
  have 1: "Last_admin_guard \<notin> set (fst (snd (admin_remove_handler (Some x) actor st)))"
    using assms(2) by (auto simp: h guard_not_in_menu split: write_outcome.splits)
  have 2: "next_write st = Write_succeeds \<longrightarrow>
            admin_remove_handler (Some x) actor st
              = (END, [Admin_removed x, No_access], st\<lparr>admins_file := Some []\<rparr>)
            \<and> load_admins (snd (snd (admin_remove_handler (Some x) actor st))) = []"
    using assms
    by (auto simp: h load_admins_stored admin_menu_of_other)
  have 3: "next_write st = Open_fails \<longrightarrow>
            admin_remove_handler (Some x) actor st = (END, [Save_failed, No_access], st)"
    using assms(2) other by (auto simp: h admin_menu_of_other)
  have 4: "next_write st = Write_fails left \<longrightarrow>
            admin_remove_handler (Some x) actor st
              = (fst (admin_menu actor (st\<lparr>admins_file := left\<rparr>)),
                 Save_failed # snd (admin_menu actor (st\<lparr>admins_file := left\<rparr>)),
                 st\<lparr>admins_file := left\<rparr>)"
    using assms(2) by (auto simp: h)
  from 1 2 3 4 show ?thesis
    by (intro conjI)
qed

text \<open>Roster \<open>{7}\<close>, caller 42, target 7, a save that succeeds: the stored roster is empty.\<close>

theorem remove_last_other_admin_witness:
  "load_admins \<lparr>admins_file = Some [7], next_write = Write_succeeds\<rparr> = [7]
   \<and> (42 :: int) \<noteq> 7
   \<and> next_write \<lparr>admins_file = Some [7], next_write = Write_succeeds\<rparr> = Write_succeeds
   \<and> admin_remove_handler (Some 7) 42 \<lparr>admins_file = Some [7], next_write = Write_succeeds\<rparr>
       = (END, [Admin_removed 7, No_access],
          \<lparr>admins_file = Some [], next_write = Write_succeeds\<rparr>)
   \<and> load_admins \<lparr>admins_file = Some [], next_write = Write_succeeds\<rparr> = []"
  using remove_last_other_admin
    [of "\<lparr>admins_file = Some [7], next_write = Write_succeeds\<rparr>" 7 42]
  by (simp add: load_admins_def)

end
